theory Spec2Isabelle
  imports Main
begin

section \<open>Strings of the host language\<close>

text \<open>
  A JavaScript string is modelled as the list of its code units, which are taken to lie
  below 256 (Latin-1). The functions of this section are the parts of
  \<open>String.prototype\<close> and of the two regular expressions that the tar wrapper uses.
\<close>

definition is_digit :: "char \<Rightarrow> bool" where
  \<comment> \<open>the class \<open>\d\<close>: the ten ASCII digits\<close>
  "is_digit c = (c \<in> set ''0123456789'')"

definition is_space :: "char \<Rightarrow> bool" where
  \<comment> \<open>white space and line terminators removed by \<open>trim\<close>: TAB, LF, VT, FF, CR, SP, NBSP\<close>
  "is_space c = (c \<in> set [CHR 0x09, CHR 0x0A, CHR 0x0B, CHR 0x0C, CHR 0x0D, CHR 0x20, CHR 0xA0])"

definition trim :: "string \<Rightarrow> string" where
  "trim s = rev (dropWhile is_space (rev (dropWhile is_space s)))"

definition capitals :: string where
  \<comment> \<open>A-Z and the Latin-1 capitals: all of 0xC0..0xDE but the multiplication sign 0xD7\<close>
  "capitals = ''ABCDEFGHIJKLMNOPQRSTUVWXYZ'' @
     [CHR 0xC0, CHR 0xC1, CHR 0xC2, CHR 0xC3, CHR 0xC4, CHR 0xC5, CHR 0xC6, CHR 0xC7,
      CHR 0xC8, CHR 0xC9, CHR 0xCA, CHR 0xCB, CHR 0xCC, CHR 0xCD, CHR 0xCE, CHR 0xCF,
      CHR 0xD0, CHR 0xD1, CHR 0xD2, CHR 0xD3, CHR 0xD4, CHR 0xD5, CHR 0xD6, CHR 0xD8,
      CHR 0xD9, CHR 0xDA, CHR 0xDB, CHR 0xDC, CHR 0xDD, CHR 0xDE]"

definition smalls :: string where
  \<comment> \<open>their lower-case forms, 0x20 above each\<close>
  "smalls = ''abcdefghijklmnopqrstuvwxyz'' @
     [CHR 0xE0, CHR 0xE1, CHR 0xE2, CHR 0xE3, CHR 0xE4, CHR 0xE5, CHR 0xE6, CHR 0xE7,
      CHR 0xE8, CHR 0xE9, CHR 0xEA, CHR 0xEB, CHR 0xEC, CHR 0xED, CHR 0xEE, CHR 0xEF,
      CHR 0xF0, CHR 0xF1, CHR 0xF2, CHR 0xF3, CHR 0xF4, CHR 0xF5, CHR 0xF6, CHR 0xF8,
      CHR 0xF9, CHR 0xFA, CHR 0xFB, CHR 0xFC, CHR 0xFD, CHR 0xFE]"

definition lower_char :: "char \<Rightarrow> char" where
  "lower_char c = (case map_of (zip capitals smalls) c of None \<Rightarrow> c | Some d \<Rightarrow> d)"

definition toLowerCase :: "string \<Rightarrow> string" where
  "toLowerCase s = map lower_char s"

fun str_includes :: "string \<Rightarrow> string \<Rightarrow> bool" where
  "str_includes [] pat = (pat = [])"
| "str_includes (c # cs) pat = (take (length pat) (c # cs) = pat \<or> str_includes cs pat)"

text \<open>
  The tail \<open>(?:\.\d+){0,}\<close> of both version patterns, matched at the start of its
  argument: greedy, each round needs a dot followed by at least one digit.
\<close>

function match_dot_groups :: "string \<Rightarrow> string" where
  "match_dot_groups [] = []"
| "match_dot_groups (c # cs) =
     (if c = CHR ''.'' \<and> takeWhile is_digit cs \<noteq> []
      then c # takeWhile is_digit cs @ match_dot_groups (dropWhile is_digit cs)
      else [])"
  by pat_completeness auto
termination
  by (relation "measure length") (auto simp: length_dropWhile_le le_imp_less_Suc)

definition match_version :: "string \<Rightarrow> string option" where
  \<comment> \<open>\<open>\d+(?:\.\d+){0,}\<close> anchored at the start of \<open>s\<close>; the matched text\<close>
  "match_version s =
     (let ds = takeWhile is_digit s
      in if ds = [] then None else Some (ds @ match_dot_groups (dropWhile is_digit s)))"

fun exec_zstd_version :: "string \<Rightarrow> string option" where
  \<comment> \<open>group 1 of \<open>/v(\d+(?:\.\d+){0,})/.exec(out)\<close>: leftmost match, \<open>None\<close> for null\<close>
  "exec_zstd_version [] = None"
| "exec_zstd_version (c # cs) =
     (if c = CHR ''v''
      then (case match_version cs of Some v \<Rightarrow> Some v | None \<Rightarrow> exec_zstd_version cs)
      else exec_zstd_version cs)"

fun exec_lz4_version :: "string \<Rightarrow> string option" where
  \<comment> \<open>group 1 of \<open>/(\d+(?:\.\d+){0,})/.exec(out)\<close>\<close>
  "exec_lz4_version [] = None"
| "exec_lz4_version (c # cs) =
     (case match_version (c # cs) of Some v \<Rightarrow> Some v | None \<Rightarrow> exec_lz4_version cs)"

fun show_nat :: "nat \<Rightarrow> string" where
  \<comment> \<open>a number inside a template literal: its decimal digits\<close>
  "show_nat n =
     (if n < 10 then [char_of (48 + n)] else show_nat (n div 10) @ [char_of (48 + n mod 10)])"

declare show_nat.simps [simp del]

section \<open>Errors\<close>

text \<open>
  Every exception that can leave the wrapper. The wrapper defines no error class of its
  own: the errors are those of the process runner (\<open>@actions/exec\<close>), of the version
  library (\<open>semver\<close>) and of the language (spreading \<open>undefined\<close>).
\<close>

datatype js_error =
    LaunchFailed string
  | ProcessFailed string nat
  | VersionTooLong
  | InvalidVersion string
  | InvalidMajor
  | InvalidMinor
  | InvalidPatch
  | NotIterable

fun error_name :: "js_error \<Rightarrow> string" where
  "error_name (LaunchFailed m) = ''Error''"
| "error_name (ProcessFailed t c) = ''Error''"
| "error_name e = ''TypeError''"

fun error_message :: "js_error \<Rightarrow> string" where
  "error_message (LaunchFailed m) = m"
| "error_message (ProcessFailed t c) =
     ''The process '' @ [CHR 0x27] @ t @ [CHR 0x27] @ '' failed with exit code '' @ show_nat c"
| "error_message VersionTooLong = ''version is longer than 256 characters''"
| "error_message (InvalidVersion v) = ''Invalid Version: '' @ v"
| "error_message InvalidMajor = ''Invalid major version''"
| "error_message InvalidMinor = ''Invalid minor version''"
| "error_message InvalidPatch = ''Invalid patch version''"
| "error_message NotIterable = ''compressionArgs is not iterable''"

section \<open>The version library\<close>

text \<open>
  \<open>semver.lt(a, b)\<close> is \<open>new SemVer(a).compare(new SemVer(b)) < 0\<close> in strict mode.
  The constructor throws a \<open>TypeError\<close> on a string of more than 256 characters, on
  one that, trimmed, does not match the full pattern, and on a component above the
  largest safe integer. It is modelled on the main version \<open>v?MAJOR.MINOR.PATCH\<close>,
  three numeric identifiers without leading zeros. The library also accepts a pre-release
  and a build suffix; they start with \<open>-\<close> or \<open>+\<close>, which a version token of the
  probe never contains (lemma \<open>exec_zstd_version_chars\<close>), so the model reports every
  string with such a suffix as invalid.
\<close>

definition MAX_LENGTH :: nat where
  "MAX_LENGTH = 256"

definition MAX_SAFE_INTEGER :: int where
  "MAX_SAFE_INTEGER = 9007199254740991"

fun split_dots :: "string \<Rightarrow> string list" where
  \<comment> \<open>the pieces of a string between its dots; never the empty list\<close>
  "split_dots [] = [[]]"
| "split_dots (c # cs) =
     (if c = CHR ''.'' then [] # split_dots cs
      else (case split_dots cs of [] \<Rightarrow> [[c]] | p # ps \<Rightarrow> (c # p) # ps))"

definition numeric_identifier :: "string \<Rightarrow> bool" where
  \<comment> \<open>\<open>0|[1-9]\d*\<close>\<close>
  "numeric_identifier s =
     (s = ''0'' \<or> (s \<noteq> [] \<and> hd s \<in> set ''123456789'' \<and> list_all is_digit (tl s)))"

definition to_number :: "string \<Rightarrow> int" where
  \<comment> \<open>unary plus on a string of digits\<close>
  "to_number s = foldl (\<lambda>n c. 10 * n + (of_char c - 48)) 0 s"

definition strip_v :: "string \<Rightarrow> string" where
  "strip_v s = (case s of [] \<Rightarrow> [] | c # cs \<Rightarrow> if c = CHR ''v'' then cs else s)"

definition SemVer :: "string \<Rightarrow> js_error + (int \<times> int \<times> int)" where
  "SemVer version =
     (if length version > MAX_LENGTH then Inl VersionTooLong
      else case split_dots (strip_v (trim version)) of
        [a, b, c] \<Rightarrow>
          if numeric_identifier a \<and> numeric_identifier b \<and> numeric_identifier c
          then (if to_number a > MAX_SAFE_INTEGER then Inl InvalidMajor
                else if to_number b > MAX_SAFE_INTEGER then Inl InvalidMinor
                else if to_number c > MAX_SAFE_INTEGER then Inl InvalidPatch
                else Inr (to_number a, to_number b, to_number c))
          else Inl (InvalidVersion version)
      | _ \<Rightarrow> Inl (InvalidVersion version))"

fun compareMain :: "int \<times> int \<times> int \<Rightarrow> int \<times> int \<times> int \<Rightarrow> int" where
  "compareMain (a1, a2, a3) (b1, b2, b3) =
     (if a1 \<noteq> b1 then (if a1 < b1 then -1 else 1)
      else if a2 \<noteq> b2 then (if a2 < b2 then -1 else 1)
      else if a3 \<noteq> b3 then (if a3 < b3 then -1 else 1)
      else 0)"

definition semver_lt :: "string \<Rightarrow> string \<Rightarrow> js_error + bool" where
  "semver_lt a b =
     (case SemVer a of
        Inl e \<Rightarrow> Inl e
      | Inr x \<Rightarrow> (case SemVer b of Inl e \<Rightarrow> Inl e | Inr y \<Rightarrow> Inr (compareMain x y < 0)))"

section \<open>The host: platform, configured state, processes\<close>

text \<open>
  What running a tool with arguments comes to: the tool cannot be started (not on the
  path; the runner's message), or it is found at a path, runs, and exits with a code
  after writing to its two output streams.
\<close>

datatype process =
    NotStarted string
  | Exited string nat string string

record ExecOutput =
  exitCode :: nat
  stdout :: string
  stderr :: string

text \<open>
  \<open>platform\<close> is \<open>process.platform\<close>; \<open>compressionMethod\<close> is the field of that
  name of \<open>getState()\<close> (the state module is not part of the wrapper; the field is
  a string or absent); \<open>run\<close> gives the outcome of each command line.
\<close>

record env =
  platform :: string
  compressionMethod :: "string option"
  run :: "string \<Rightarrow> string list \<Rightarrow> process"

text \<open>
  What the wrapper does to the outside, in order: a process it starts (tool and
  arguments), and its two console messages, each with the method it names.
\<close>

datatype event =
    Invoke string "string list"
  | Console_using string
  | Console_detected string

definition getExecOutput :: "env \<Rightarrow> string \<Rightarrow> string list \<Rightarrow> event list \<times> (js_error + ExecOutput)" where
  \<comment> \<open>\<open>exec.getExecOutput\<close> with \<open>ignoreReturnCode: true\<close>: any exit code resolves;
      the promise is rejected only when the process cannot be started\<close>
  "getExecOutput e tool args =
     ([Invoke tool args],
      case run e tool args of
        NotStarted m \<Rightarrow> Inl (LaunchFailed m)
      | Exited p code out err \<Rightarrow> Inr \<lparr>exitCode = code, stdout = out, stderr = err\<rparr>)"

definition exec_exec :: "env \<Rightarrow> string \<Rightarrow> string list \<Rightarrow> event list \<times> (js_error + nat)" where
  \<comment> \<open>\<open>exec.exec\<close> with its default options: a non-zero exit code rejects\<close>
  "exec_exec e tool args =
     ([Invoke tool args],
      case run e tool args of
        NotStarted m \<Rightarrow> Inl (LaunchFailed m)
      | Exited p code out err \<Rightarrow> if code \<noteq> 0 then Inl (ProcessFailed p code) else Inr code)"

section \<open>The tar wrapper\<close>

definition ZSTD_WITHOUT_LONG_VERSION :: string where
  "ZSTD_WITHOUT_LONG_VERSION = ''1.3.2''"

datatype CompressionMethod = GZIP | ZSTD_WITHOUT_LONG | ZSTD | LZ4

fun enum_value :: "CompressionMethod \<Rightarrow> string" where
  "enum_value GZIP = ''gzip''"
| "enum_value ZSTD_WITHOUT_LONG = ''zstd (without long)''"
| "enum_value ZSTD = ''zstd''"
| "enum_value LZ4 = ''lz4''"

definition possibleWithZstd :: "env \<Rightarrow> event list \<times> (js_error + CompressionMethod option)" where
  "possibleWithZstd e =
     (let (evs, r) = getExecOutput e ''zstd'' [''--version''];
          (zstdOutput, zstdVersion) =
            (case r of
               Inl err \<Rightarrow> ('''', None)
             | Inr out \<Rightarrow> (trim (stdout out), exec_zstd_version (trim (stdout out))))
      in (evs,
          if \<not> str_includes (toLowerCase zstdOutput) ''zstd command line interface''
          then Inr None
          else if zstdVersion = None \<or> zstdVersion = Some ''''
          then Inr (Some ZSTD_WITHOUT_LONG)
          else (case semver_lt (the zstdVersion) ZSTD_WITHOUT_LONG_VERSION of
                  Inl err \<Rightarrow> Inl err
                | Inr lt \<Rightarrow> Inr (Some (if lt then ZSTD_WITHOUT_LONG else ZSTD)))))"

definition possibleWithLz4 :: "env \<Rightarrow> event list \<times> CompressionMethod option" where
  "possibleWithLz4 e =
     (let (evs, r) = getExecOutput e ''lz4'' [''--version''];
          (lz4Output, lz4Version) =
            (case r of
               Inl err \<Rightarrow> ('''', None)
             | Inr out \<Rightarrow> (trim (stdout out), exec_lz4_version (trim (stdout out))))
      in (evs,
          if \<not> str_includes (toLowerCase lz4Output) ''lz4 command line interface''
          then None
          else Some LZ4))"

definition getTarCompressionMethod :: "env \<Rightarrow> event list \<times> (js_error + CompressionMethod)" where
  "getTarCompressionMethod e =
     (if platform e = ''win32'' then ([], Inr GZIP)
      else if compressionMethod e = Some (enum_value GZIP) then ([], Inr GZIP)
      else
        let (evs1, lz4) = possibleWithLz4 e
        in if lz4 \<noteq> None \<and> compressionMethod e = Some (enum_value LZ4)
           then (evs1, Inr (the lz4))
           else
             let (evs2, zstd) = possibleWithZstd e
             in (evs1 @ evs2,
                 case zstd of
                   Inl err \<Rightarrow> Inl err
                 | Inr (Some m) \<Rightarrow> Inr m
                 | Inr None \<Rightarrow> Inr GZIP))"

fun buildCompressionArgs :: "CompressionMethod \<Rightarrow> string list" where
  "buildCompressionArgs GZIP = [''-z'']"
| "buildCompressionArgs ZSTD_WITHOUT_LONG = [''--use-compress-program'', ''zstd -T0'']"
| "buildCompressionArgs ZSTD = [''--use-compress-program'', ''zstd -T0 --long=30'']"
| "buildCompressionArgs LZ4 = [''--use-compress-program'', ''lz4 --fast -BD'']"

text \<open>
  The method given to \<open>extractTar\<close> is read back from stored metadata by the caller, so
  at run time it is any string. The \<open>switch\<close> compares it with the four enum members
  and has no default case: for another string the function returns \<open>undefined\<close>
  (\<open>None\<close>), and spreading that into the argument array raises a \<open>TypeError\<close>.
\<close>

definition buildDecompressionArgs :: "string \<Rightarrow> string list option" where
  "buildDecompressionArgs method =
     (if method = enum_value GZIP then Some [''-z'']
      else if method = enum_value ZSTD_WITHOUT_LONG
        then Some [''--use-compress-program'', ''zstd -d'']
      else if method = enum_value ZSTD
        then Some [''--use-compress-program'', ''zstd -d --long=30'']
      else if method = enum_value LZ4
        then Some [''--use-compress-program'', ''lz4 -d'']
      else None)"

definition createTar ::
  "env \<Rightarrow> string \<Rightarrow> string list \<Rightarrow> string \<Rightarrow> event list \<times> (js_error + CompressionMethod)" where
  "createTar e archivePath paths cwd =
     (let (evs1, r) = getTarCompressionMethod e
      in case r of
           Inl err \<Rightarrow> (evs1, Inl err)
         | Inr m \<Rightarrow>
             let compressionArgs = buildCompressionArgs m;
                 (evs2, x) = exec_exec e ''tar''
                    ([''-c''] @ compressionArgs
                      @ [''--posix'', ''-P'', ''-f'', archivePath, ''-C'', cwd] @ paths)
             in (evs1 @ [Console_using (enum_value m)] @ evs2,
                 case x of Inl err \<Rightarrow> Inl err | Inr code \<Rightarrow> Inr m))"

definition extractTar ::
  "env \<Rightarrow> string \<Rightarrow> string \<Rightarrow> string \<Rightarrow> event list \<times> (js_error + unit)" where
  "extractTar e archivePath method cwd =
     (case buildDecompressionArgs method of
        None \<Rightarrow> ([Console_detected method], Inl NotIterable)
      | Some compressionArgs \<Rightarrow>
          let (evs, x) = exec_exec e ''tar''
                 ([''-x''] @ compressionArgs @ [''-P'', ''-f'', archivePath, ''-C'', cwd])
          in (Console_detected method # evs,
              case x of Inl err \<Rightarrow> Inl err | Inr code \<Rightarrow> Inr ()))"

section \<open>Sample hosts and the reading of a probe\<close>

text \<open>
  A host is given by its platform, the configured preference and what running
  \<open>lz4\<close>, \<open>zstd\<close> and any other tool (\<open>tar\<close>) comes to on it.
\<close>

definition host :: "string \<Rightarrow> string option \<Rightarrow> process \<Rightarrow> process \<Rightarrow> process \<Rightarrow> env" where
  "host pf pref lz4 zstd tar =
     \<lparr>platform = pf, compressionMethod = pref,
      run = (\<lambda>tool args. if tool = ''lz4'' then lz4 else if tool = ''zstd'' then zstd else tar)\<rparr>"

definition lz4_banner :: string where
  "lz4_banner = ''*** LZ4 command line interface 64-bits v1.9.2, by Yann Collet ***''"

definition zstd_banner :: "string \<Rightarrow> string" where
  "zstd_banner v = ''*** zstd command line interface 64-bits v'' @ v @ '', by Yann Collet ***''"

definition absent :: process where
  "absent = NotStarted ''Unable to locate executable file''"

definition lz4_ok :: process where
  "lz4_ok = Exited ''/usr/bin/lz4'' 0 lz4_banner []"

definition zstd_exit :: "nat \<Rightarrow> string \<Rightarrow> process" where
  "zstd_exit code v = Exited ''/usr/bin/zstd'' code (zstd_banner v) []"

definition tar_exit :: "nat \<Rightarrow> string \<Rightarrow> process" where
  "tar_exit code msg = Exited ''/usr/bin/tar'' code [] msg"

text \<open>
  A tool counts as unavailable to its probe when \<open>tool --version\<close> cannot be started or
  the lower-cased text it prints lacks \<open>tool command line interface\<close>. The exit code
  plays no part.
\<close>

definition unavailable :: "env \<Rightarrow> string \<Rightarrow> bool" where
  "unavailable e tool =
     (case run e tool [''--version''] of
        NotStarted m \<Rightarrow> True
      | Exited p code out err \<Rightarrow>
          \<not> str_includes (toLowerCase out) (tool @ '' command line interface''))"

section \<open>Facts about the strings\<close>

lemma toLowerCase_Nil [simp]: "toLowerCase [] = []"
  by (simp add: toLowerCase_def)

text \<open>
  Trimming does not change whether a signature is found: white space stays white space
  in lower case, and neither signature starts or ends with it.
\<close>

lemma str_includes_skip:
  assumes "pat \<noteq> []" and "hd pat \<noteq> c"
  shows "str_includes (c # s) pat = str_includes s pat"
  using assms by (cases pat) auto

lemma str_includes_snoc:
  assumes "pat \<noteq> []" and "last pat \<noteq> c"
  shows "str_includes (s @ [c]) pat = str_includes s pat"
proof (induction s)
  case Nil
  with assms show ?case by (cases pat) auto
next
  case (Cons x xs)
  have "take (length pat) (x # xs @ [c]) = pat \<longleftrightarrow> take (length pat) (x # xs) = pat"
  proof (cases "length pat \<le> length (x # xs)")
    case True
    then show ?thesis
      using take_append [of "length pat" "x # xs" "[c]"] by simp
  next
    case False
    then have a: "take (length pat) (x # xs @ [c]) = x # xs @ [c]"
      and b: "take (length pat) (x # xs) = x # xs"
      by simp_all
    have "x # xs @ [c] \<noteq> pat"
      using assms(2) by (metis append_Cons last_snoc)
    moreover have "x # xs \<noteq> pat"
      using False by auto
    ultimately show ?thesis using a b by simp
  qed
  with Cons show ?case by simp
qed

lemma lower_char_space: "is_space c \<Longrightarrow> lower_char c = c"
proof -
  assume "is_space c"
  then consider "c = CHR 0x09" | "c = CHR 0x0A" | "c = CHR 0x0B" | "c = CHR 0x0C"
    | "c = CHR 0x0D" | "c = CHR 0x20" | "c = CHR 0xA0"
    unfolding is_space_def by auto
  then show ?thesis
    by cases (simp_all add: lower_char_def capitals_def smalls_def)
qed

lemma str_includes_dropWhile:
  assumes "pat \<noteq> []" and "\<not> is_space (hd pat)"
  shows "str_includes (toLowerCase (dropWhile is_space s)) pat = str_includes (toLowerCase s) pat"
proof (induction s)
  case Nil
  then show ?case by simp
next
  case (Cons c cs)
  show ?case
  proof (cases "is_space c")
    case True
    then have "hd pat \<noteq> lower_char c"
      using assms(2) lower_char_space by auto
    with Cons True assms(1) show ?thesis
      by (simp add: toLowerCase_def str_includes_skip del: str_includes.simps)
  next
    case False
    then show ?thesis by simp
  qed
qed

lemma str_includes_dropWhile_end:
  assumes "pat \<noteq> []" and "\<not> is_space (last pat)"
  shows "str_includes (toLowerCase (rev (dropWhile is_space (rev s)))) pat
           = str_includes (toLowerCase s) pat"
proof (induction s rule: rev_induct)
  case Nil
  then show ?case by simp
next
  case (snoc c cs)
  show ?case
  proof (cases "is_space c")
    case True
    then have "last pat \<noteq> lower_char c"
      using assms(2) lower_char_space by auto
    with snoc True assms(1) show ?thesis
      by (simp add: toLowerCase_def str_includes_snoc)
  next
    case False
    then show ?thesis by simp
  qed
qed

lemma str_includes_trim:
  assumes "pat \<noteq> []" and "\<not> is_space (hd pat)" and "\<not> is_space (last pat)"
  shows "str_includes (toLowerCase (trim s)) pat = str_includes (toLowerCase s) pat"
  using assms by (simp add: trim_def str_includes_dropWhile_end str_includes_dropWhile)

lemma signature_trim:
  "str_includes (toLowerCase (trim s)) ''zstd command line interface''
     = str_includes (toLowerCase s) ''zstd command line interface''"
  "str_includes (toLowerCase (trim s)) ''lz4 command line interface''
     = str_includes (toLowerCase s) ''lz4 command line interface''"
  by (rule str_includes_trim; simp add: is_space_def)+

text \<open>The version token is never empty and holds digits and dots only.\<close>

lemma match_version_nonempty: "match_version s = Some v \<Longrightarrow> v \<noteq> []"
  by (auto simp: match_version_def Let_def split: if_splits)

lemma exec_zstd_version_nonempty: "exec_zstd_version s = Some v \<Longrightarrow> v \<noteq> []"
  by (induction s) (auto split: if_splits option.splits dest: match_version_nonempty)

lemma match_dot_groups_chars:
  "\<forall>c \<in> set (match_dot_groups s). is_digit c \<or> c = CHR ''.''"
proof (induction s rule: match_dot_groups.induct)
  case 1
  then show ?case by simp
next
  case (2 c cs)
  have "\<forall>c \<in> set (takeWhile is_digit cs). is_digit c"
    by (auto dest: set_takeWhileD)
  with 2 show ?case by auto
qed

lemma match_version_chars:
  assumes "match_version s = Some v"
  shows "\<forall>c \<in> set v. is_digit c \<or> c = CHR ''.''"
proof -
  have "\<forall>c \<in> set (takeWhile is_digit s). is_digit c"
    by (auto dest: set_takeWhileD)
  with assms match_dot_groups_chars [of "dropWhile is_digit s"] show ?thesis
    by (auto simp: match_version_def Let_def split: if_splits)
qed

lemma exec_zstd_version_chars:
  "exec_zstd_version s = Some v \<Longrightarrow> \<forall>c \<in> set v. is_digit c \<or> c = CHR ''.''"
proof (induction s)
  case Nil
  then show ?case by simp
next
  case (Cons c cs)
  then show ?case
    using match_version_chars [of cs v]
    by (auto split: if_splits option.splits)
qed

text \<open>
  On such a token the version constructor trims nothing and strips nothing, and it
  rejects every token that does not have exactly three parts.
\<close>

lemma dropWhile_hd: "xs \<noteq> [] \<Longrightarrow> \<not> P (hd xs) \<Longrightarrow> dropWhile P xs = xs"
  by (cases xs) simp_all

lemma not_space_version_char: "is_digit c \<or> c = CHR ''.'' \<Longrightarrow> \<not> is_space c"
  by (auto simp: is_digit_def is_space_def)

lemma trim_token:
  assumes "\<forall>c \<in> set v. is_digit c \<or> c = CHR ''.''"
  shows "trim v = v"
proof (cases "v = []")
  case True
  then show ?thesis by (simp add: trim_def)
next
  case False
  then have "\<not> is_space (hd v)" "\<not> is_space (last v)"
    using assms not_space_version_char by (metis hd_in_set, metis last_in_set)
  with False show ?thesis
    by (simp add: trim_def dropWhile_hd hd_rev)
qed

lemma strip_v_token:
  assumes "\<forall>c \<in> set v. is_digit c \<or> c = CHR ''.''"
  shows "strip_v v = v"
  using assms by (cases v) (auto simp: strip_v_def is_digit_def)

lemma SemVer_needs_three_parts:
  assumes "\<forall>c \<in> set v. is_digit c \<or> c = CHR ''.''"
    and "length v \<le> MAX_LENGTH"
    and "length (split_dots v) \<noteq> 3"
  shows "SemVer v = Inl (InvalidVersion v)"
proof -
  have "split_dots (strip_v (trim v)) = split_dots v"
    using assms(1) by (simp add: trim_token strip_v_token)
  with assms(2,3) show ?thesis
    by (auto simp: SemVer_def split: list.splits)
qed

text \<open>The threshold itself is a valid version, so the comparison fails only on the token.\<close>

lemma SemVer_threshold: "SemVer ZSTD_WITHOUT_LONG_VERSION = Inr (1, 3, 2)"
  by (simp add: SemVer_def ZSTD_WITHOUT_LONG_VERSION_def MAX_LENGTH_def MAX_SAFE_INTEGER_def
      trim_def is_space_def strip_v_def numeric_identifier_def is_digit_def to_number_def)

lemma semver_lt_threshold:
  "semver_lt v ZSTD_WITHOUT_LONG_VERSION =
     (case SemVer v of
        Inl err \<Rightarrow> Inl err
      | Inr (major, minor, patch) \<Rightarrow>
          Inr (major < 1 \<or> (major = 1 \<and> (minor < 3 \<or> (minor = 3 \<and> patch < 2)))))"
  by (auto simp: semver_lt_def SemVer_threshold split: sum.splits)

section \<open>Facts about the probes\<close>

lemma host_sel [simp]:
  "platform (host pf pref l z t) = pf"
  "compressionMethod (host pf pref l z t) = pref"
  "run (host pf pref l z t) ''lz4'' args = l"
  "run (host pf pref l z t) ''zstd'' args = z"
  "run (host pf pref l z t) ''tar'' args = t"
  by (simp_all add: host_def)

lemma possibleWithLz4_eq:
  "possibleWithLz4 e =
     ([Invoke ''lz4'' [''--version'']], if unavailable e ''lz4'' then None else Some LZ4)"
  by (simp add: possibleWithLz4_def getExecOutput_def unavailable_def signature_trim
      split: process.splits)

text \<open>The zstd probe, with the pattern match on the settled promise resolved.\<close>

lemma possibleWithZstd_eq:
  "possibleWithZstd e =
     ([Invoke ''zstd'' [''--version'']],
      if unavailable e ''zstd'' then Inr None
      else (case run e ''zstd'' [''--version''] of
              NotStarted m \<Rightarrow> Inr None
            | Exited p code out err \<Rightarrow>
               (case exec_zstd_version (trim out) of
                  None \<Rightarrow> Inr (Some ZSTD_WITHOUT_LONG)
                | Some v \<Rightarrow>
                   (case semver_lt v ZSTD_WITHOUT_LONG_VERSION of
                      Inl err \<Rightarrow> Inl err
                    | Inr lt \<Rightarrow> Inr (Some (if lt then ZSTD_WITHOUT_LONG else ZSTD))))))"
  by (auto simp: possibleWithZstd_def getExecOutput_def unavailable_def signature_trim
      split: process.splits option.splits sum.splits dest: exec_zstd_version_nonempty)

lemma possibleWithLz4_pref [simp]:
  "possibleWithLz4 (e\<lparr>compressionMethod := p\<rparr>) = possibleWithLz4 e"
  by (simp add: possibleWithLz4_def getExecOutput_def)

lemma possibleWithZstd_pref [simp]:
  "possibleWithZstd (e\<lparr>compressionMethod := p\<rparr>) = possibleWithZstd e"
  by (simp add: possibleWithZstd_def getExecOutput_def)

lemma possibleWithZstd_not_lz4: "snd (possibleWithZstd e) \<noteq> Inr (Some LZ4)"
  by (simp add: possibleWithZstd_eq split: process.splits option.splits sum.splits)

text \<open>
  What the zstd probe answers when the signature is there: the legacy method without a
  token, the comparison with 1.3.2 on a token the version library accepts, and the
  library's error on any other token.
\<close>

lemma possibleWithZstd_decision:
  assumes "run e ''zstd'' [''--version''] = Exited p code out err"
    and "str_includes (toLowerCase out) ''zstd command line interface''"
  shows "snd (possibleWithZstd e) =
     (case exec_zstd_version (trim out) of
        None \<Rightarrow> Inr (Some ZSTD_WITHOUT_LONG)
      | Some v \<Rightarrow>
          (case SemVer v of
             Inl err \<Rightarrow> Inl err
           | Inr (major, minor, patch) \<Rightarrow>
               Inr (Some (if major < 1 \<or> (major = 1 \<and> (minor < 3 \<or> (minor = 3 \<and> patch < 2)))
                          then ZSTD_WITHOUT_LONG else ZSTD))))"
  using assms
  by (simp add: possibleWithZstd_eq unavailable_def semver_lt_threshold
      split: option.splits sum.splits prod.splits)

lemma possibleWithZstd_raises:
  assumes "run e ''zstd'' [''--version''] = Exited p code out err"
    and "str_includes (toLowerCase out) ''zstd command line interface''"
    and "exec_zstd_version (trim out) = Some v"
    and "length v \<le> MAX_LENGTH"
    and "length (split_dots v) \<noteq> 3"
  shows "snd (possibleWithZstd e) = Inl (InvalidVersion v)"
  using possibleWithZstd_decision [OF assms(1,2)] assms(3)
    SemVer_needs_three_parts [OF exec_zstd_version_chars [OF assms(3)] assms(4,5)]
  by simp

text \<open>The three versions named by the specification's tests, and a banner without one.\<close>

lemma zstd_1_3_1:
  "snd (getTarCompressionMethod (host ''linux'' None absent (zstd_exit 0 ''1.3.1'') absent))
     = Inr ZSTD_WITHOUT_LONG"
  by code_simp

lemma zstd_1_3_2:
  "snd (getTarCompressionMethod (host ''linux'' None absent (zstd_exit 0 ''1.3.2'') absent))
     = Inr ZSTD"
  by code_simp

lemma zstd_1_4_0:
  "snd (getTarCompressionMethod (host ''linux'' None absent (zstd_exit 0 ''1.4.0'') absent))
     = Inr ZSTD"
  by code_simp

lemma zstd_no_version:
  "snd (getTarCompressionMethod
     (host ''linux'' None absent
        (Exited ''/usr/bin/zstd'' 0 ''*** zstd command line interface 64-bits ***'' []) absent))
     = Inr ZSTD_WITHOUT_LONG"
  by code_simp

section \<open>The negotiator\<close>

text \<open>
  Claim C5. On Windows (\<open>process.platform\<close> is \<open>win32\<close>) the negotiator returns gzip
  whatever the configured preference and whatever the tools on the host would answer, and
  it invokes no probe: its list of events is empty.
\<close>

theorem windows_always_gzip:
  "platform e = ''win32'' \<Longrightarrow> getTarCompressionMethod e = ([], Inr GZIP)"
  by (simp add: getTarCompressionMethod_def)

theorem windows_always_gzip_witness:
  "platform (host ''win32'' (Some ''lz4'') lz4_ok (zstd_exit 0 ''1.5.0'') absent) = ''win32''
   \<and> getTarCompressionMethod (host ''win32'' (Some ''lz4'') lz4_ok (zstd_exit 0 ''1.5.0'') absent)
       = ([], Inr GZIP)"
  using windows_always_gzip [of "host ''win32'' (Some ''lz4'') lz4_ok (zstd_exit 0 ''1.5.0'') absent"]
  by simp

text \<open>
  Claim C6. On a platform other than Windows, with the configured preference equal to
  \<open>gzip\<close>, the negotiator returns gzip and invokes no probe, whatever the tools on
  the host would answer.
\<close>

theorem gzip_preference_skips_probes:
  "platform e \<noteq> ''win32'' \<Longrightarrow> compressionMethod e = Some ''gzip''
   \<Longrightarrow> getTarCompressionMethod e = ([], Inr GZIP)"
  by (simp add: getTarCompressionMethod_def)

theorem gzip_preference_skips_probes_witness:
  "platform (host ''linux'' (Some ''gzip'') lz4_ok (zstd_exit 0 ''1.5.0'') absent) \<noteq> ''win32''
   \<and> getTarCompressionMethod (host ''linux'' (Some ''gzip'') lz4_ok (zstd_exit 0 ''1.5.0'') absent)
       = ([], Inr GZIP)"
  using gzip_preference_skips_probes
    [of "host ''linux'' (Some ''gzip'') lz4_ok (zstd_exit 0 ''1.5.0'') absent"]
  by simp

text \<open>
  Claim C7, as stated, fails on Windows: with an lz4 whose banner carries the signature
  and the preference \<open>lz4\<close>, the negotiator returns gzip, and runs no probe.
\<close>

theorem lz4_preferred_counterexample:
  "run (host ''win32'' (Some ''lz4'') lz4_ok absent absent) ''lz4'' [''--version'']
     = Exited ''/usr/bin/lz4'' 0 lz4_banner []
   \<and> str_includes (toLowerCase lz4_banner) ''lz4 command line interface''
   \<and> compressionMethod (host ''win32'' (Some ''lz4'') lz4_ok absent absent) = Some ''lz4''
   \<and> getTarCompressionMethod (host ''win32'' (Some ''lz4'') lz4_ok absent absent)
       = ([], Inr GZIP)
   \<and> snd (getTarCompressionMethod (host ''win32'' (Some ''lz4'') lz4_ok absent absent))
       \<noteq> Inr LZ4"
proof -
  let ?h = "host ''win32'' (Some ''lz4'') lz4_ok absent absent"
  have ran: "run ?h ''lz4'' [''--version''] = Exited ''/usr/bin/lz4'' 0 lz4_banner []"
    by (simp add: lz4_ok_def)
  have sig: "str_includes (toLowerCase lz4_banner) ''lz4 command line interface''"
    by code_simp
  have res: "getTarCompressionMethod ?h = ([], Inr GZIP)"
    by (simp add: getTarCompressionMethod_def)
  from ran sig res show ?thesis by simp
qed

text \<open>
  Claim C7, amended. On a platform other than Windows, whenever the lower-cased text that
  \<open>lz4 --version\<close> prints contains \<open>lz4 command line interface\<close> and the configured
  preference is \<open>lz4\<close>, the negotiator returns lz4 after that single probe. Nothing is
  asked of the version numbers in the output, nor of the exit code.
\<close>

theorem lz4_preferred:
  assumes "platform e \<noteq> ''win32''"
    and "run e ''lz4'' [''--version''] = Exited p code out err"
    and "str_includes (toLowerCase out) ''lz4 command line interface''"
    and "compressionMethod e = Some ''lz4''"
  shows "getTarCompressionMethod e = ([Invoke ''lz4'' [''--version'']], Inr LZ4)"
proof -
  have "\<not> unavailable e ''lz4''"
    using assms(2,3) by (simp add: unavailable_def)
  with assms(1,4) show ?thesis
    by (simp add: getTarCompressionMethod_def possibleWithLz4_eq)
qed

theorem lz4_preferred_witness:
  "platform (host ''linux'' (Some ''lz4'') lz4_ok (zstd_exit 0 ''1.5.0'') absent) \<noteq> ''win32''
   \<and> str_includes (toLowerCase lz4_banner) ''lz4 command line interface''
   \<and> getTarCompressionMethod (host ''linux'' (Some ''lz4'') lz4_ok (zstd_exit 0 ''1.5.0'') absent)
       = ([Invoke ''lz4'' [''--version'']], Inr LZ4)"
proof -
  let ?h = "host ''linux'' (Some ''lz4'') lz4_ok (zstd_exit 0 ''1.5.0'') absent"
  have pf: "platform ?h \<noteq> ''win32''"
    by simp
  have ran: "run ?h ''lz4'' [''--version''] = Exited ''/usr/bin/lz4'' 0 lz4_banner []"
    by (simp add: lz4_ok_def)
  have sig: "str_includes (toLowerCase lz4_banner) ''lz4 command line interface''"
    by code_simp
  have pref: "compressionMethod ?h = Some ''lz4''"
    by simp
  from lz4_preferred [OF pf ran sig pref] pf sig show ?thesis
    by simp
qed

text \<open>
  Claim C9. On a platform other than Windows, with the preference unset (absent, or the
  empty string an unset input reads as), when neither probe reports its tool available
  (both return null), the negotiator returns gzip.
\<close>

theorem gzip_fallback:
  assumes "platform e \<noteq> ''win32''"
    and "compressionMethod e = None \<or> compressionMethod e = Some []"
    and "snd (possibleWithLz4 e) = None"
    and "snd (possibleWithZstd e) = Inr None"
  shows "snd (getTarCompressionMethod e) = Inr GZIP"
  using assms by (auto simp: getTarCompressionMethod_def split: prod.splits)

theorem gzip_fallback_witness:
  "snd (possibleWithLz4 (host ''linux'' None absent absent absent)) = None
   \<and> snd (possibleWithZstd (host ''linux'' None absent absent absent)) = Inr None
   \<and> snd (getTarCompressionMethod (host ''linux'' None absent absent absent)) = Inr GZIP"
proof -
  let ?h = "host ''linux'' None absent absent absent"
  have l: "snd (possibleWithLz4 ?h) = None" by code_simp
  have z: "snd (possibleWithZstd ?h) = Inr None" by code_simp
  have "snd (getTarCompressionMethod ?h) = Inr GZIP"
    by (rule gzip_fallback [OF _ _ l z]) simp_all
  with l z show ?thesis by simp
qed

text \<open>
  Claim C10. On a platform other than Windows, two configured preferences that are each
  neither \<open>gzip\<close> nor \<open>lz4\<close> (unset, an unrecognised string, or \<open>zstd\<close> itself) give
  the same negotiation on the same host: the same probes, and the same method or error.
  With such a preference lz4 is never the result, even where lz4 is the only tool
  installed.
\<close>

theorem other_preferences_have_no_influence:
  assumes "platform e \<noteq> ''win32''"
    and "p1 \<noteq> Some ''gzip''" "p1 \<noteq> Some ''lz4''"
    and "p2 \<noteq> Some ''gzip''" "p2 \<noteq> Some ''lz4''"
  shows "getTarCompressionMethod (e\<lparr>compressionMethod := p1\<rparr>)
           = getTarCompressionMethod (e\<lparr>compressionMethod := p2\<rparr>)
         \<and> snd (getTarCompressionMethod (e\<lparr>compressionMethod := p1\<rparr>)) \<noteq> Inr LZ4"
  using assms possibleWithZstd_not_lz4 [of e]
  by (auto simp: getTarCompressionMethod_def split: prod.splits sum.splits option.splits)

theorem other_preferences_have_no_influence_witness:
  "getTarCompressionMethod ((host ''linux'' None lz4_ok absent absent)\<lparr>compressionMethod := Some ''zstd''\<rparr>)
     = getTarCompressionMethod ((host ''linux'' None lz4_ok absent absent)\<lparr>compressionMethod := None\<rparr>)
   \<and> snd (getTarCompressionMethod
        ((host ''linux'' None lz4_ok absent absent)\<lparr>compressionMethod := Some ''zstd''\<rparr>))
      \<noteq> Inr LZ4
   \<and> snd (getTarCompressionMethod
        ((host ''linux'' None lz4_ok absent absent)\<lparr>compressionMethod := None\<rparr>))
      = Inr GZIP"
proof -
  have p: "platform (host ''linux'' None lz4_ok absent absent) \<noteq> ''win32''"
    by simp
  have same: "getTarCompressionMethod
        ((host ''linux'' None lz4_ok absent absent)\<lparr>compressionMethod := Some ''zstd''\<rparr>)
      = getTarCompressionMethod
        ((host ''linux'' None lz4_ok absent absent)\<lparr>compressionMethod := None\<rparr>)
    \<and> snd (getTarCompressionMethod
        ((host ''linux'' None lz4_ok absent absent)\<lparr>compressionMethod := Some ''zstd''\<rparr>))
      \<noteq> Inr LZ4"
    by (rule other_preferences_have_no_influence [OF p]) simp_all
  have gz: "snd (getTarCompressionMethod
        ((host ''linux'' None lz4_ok absent absent)\<lparr>compressionMethod := None\<rparr>))
      = Inr GZIP"
    by code_simp
  from same gz show ?thesis by blast
qed

text \<open>
  Claim C1. A zstd banner that carries the signature and a version token with two
  components: the token \<open>1.4\<close> is extracted, \<open>semver.lt\<close> rejects it as no valid
  version, and the \<open>TypeError\<close> leaves the probe, the negotiator and \<open>createTar\<close>;
  no method is returned and tar is never run.
\<close>

theorem zstd_short_version_raises:
  "str_includes (toLowerCase (zstd_banner ''1.4'')) ''zstd command line interface''
   \<and> exec_zstd_version (trim (zstd_banner ''1.4'')) = Some ''1.4''
   \<and> possibleWithZstd (host ''linux'' None absent (zstd_exit 0 ''1.4'') (tar_exit 0 []))
       = ([Invoke ''zstd'' [''--version'']], Inl (InvalidVersion ''1.4''))
   \<and> snd (getTarCompressionMethod (host ''linux'' None absent (zstd_exit 0 ''1.4'') (tar_exit 0 [])))
       = Inl (InvalidVersion ''1.4'')
   \<and> createTar (host ''linux'' None absent (zstd_exit 0 ''1.4'') (tar_exit 0 []))
        ''cache.tar'' [''node_modules''] ''/work''
       = ([Invoke ''lz4'' [''--version''], Invoke ''zstd'' [''--version'']],
          Inl (InvalidVersion ''1.4''))"
proof -
  let ?h = "host ''linux'' None absent (zstd_exit 0 ''1.4'') (tar_exit 0 [])"
  have a: "str_includes (toLowerCase (zstd_banner ''1.4'')) ''zstd command line interface''"
    by code_simp
  have b: "exec_zstd_version (trim (zstd_banner ''1.4'')) = Some ''1.4''"
    by code_simp
  have c: "possibleWithZstd ?h = ([Invoke ''zstd'' [''--version'']], Inl (InvalidVersion ''1.4''))"
    by code_simp
  have d: "snd (getTarCompressionMethod ?h) = Inl (InvalidVersion ''1.4'')"
    by code_simp
  have e: "createTar ?h ''cache.tar'' [''node_modules''] ''/work''
       = ([Invoke ''lz4'' [''--version''], Invoke ''zstd'' [''--version'']],
          Inl (InvalidVersion ''1.4''))"
    by code_simp
  from a b c d e show ?thesis by simp
qed




section \<open>Creating and extracting archives\<close>

text \<open>
  Claim C8. Whatever method \<open>m\<close> the negotiation returns, \<open>createTar\<close> then announces
  it and invokes tar once, with \<open>-c\<close>, the compression flags of \<open>m\<close>, and
  \<open>--posix -P -f archivePath -C cwd\<close> followed by the paths. For every method \<open>m\<close>,
  \<open>extractTar\<close> given the tag of \<open>m\<close> announces it and invokes tar once, with \<open>-x\<close>,
  the decompression flags of \<open>m\<close>, and \<open>-P -f archivePath -C cwd\<close>. The flags are
  those of the specification's two tables, written out below.
\<close>

theorem tar_command_lines:
  "(getTarCompressionMethod e = (evs, Inr m) \<longrightarrow>
      fst (createTar e archivePath paths cwd) =
        evs @ [Console_using (enum_value m),
               Invoke ''tar''
                 ([''-c''] @
                  (case m of
                     GZIP \<Rightarrow> [''-z'']
                   | ZSTD_WITHOUT_LONG \<Rightarrow> [''--use-compress-program'', ''zstd -T0'']
                   | ZSTD \<Rightarrow> [''--use-compress-program'', ''zstd -T0 --long=30'']
                   | LZ4 \<Rightarrow> [''--use-compress-program'', ''lz4 --fast -BD'']) @
                  [''--posix'', ''-P'', ''-f'', archivePath, ''-C'', cwd] @ paths)])
   \<and> fst (extractTar e archivePath (enum_value m) cwd) =
        [Console_detected (enum_value m),
         Invoke ''tar''
           ([''-x''] @
            (case m of
               GZIP \<Rightarrow> [''-z'']
             | ZSTD_WITHOUT_LONG \<Rightarrow> [''--use-compress-program'', ''zstd -d'']
             | ZSTD \<Rightarrow> [''--use-compress-program'', ''zstd -d --long=30'']
             | LZ4 \<Rightarrow> [''--use-compress-program'', ''lz4 -d'']) @
            [''-P'', ''-f'', archivePath, ''-C'', cwd])]"
  by (cases m)
     (simp_all add: createTar_def extractTar_def exec_exec_def buildDecompressionArgs_def
        split: prod.splits)

theorem tar_command_lines_witness:
  "getTarCompressionMethod (host ''linux'' (Some ''lz4'') lz4_ok absent (tar_exit 0 []))
     = ([Invoke ''lz4'' [''--version'']], Inr LZ4)
   \<and> fst (createTar (host ''linux'' (Some ''lz4'') lz4_ok absent (tar_exit 0 []))
            ''cache.tar'' [''node_modules'', ''dist''] ''/work'')
     = [Invoke ''lz4'' [''--version''], Console_using ''lz4'',
        Invoke ''tar'' [''-c'', ''--use-compress-program'', ''lz4 --fast -BD'', ''--posix'',
          ''-P'', ''-f'', ''cache.tar'', ''-C'', ''/work'', ''node_modules'', ''dist'']]
   \<and> fst (extractTar (host ''linux'' (Some ''lz4'') lz4_ok absent (tar_exit 0 []))
            ''cache.tar'' ''lz4'' ''/work'')
     = [Console_detected ''lz4'',
        Invoke ''tar'' [''-x'', ''--use-compress-program'', ''lz4 -d'',
          ''-P'', ''-f'', ''cache.tar'', ''-C'', ''/work'']]"
proof -
  let ?h = "host ''linux'' (Some ''lz4'') lz4_ok absent (tar_exit 0 [])"
  have n: "getTarCompressionMethod ?h = ([Invoke ''lz4'' [''--version'']], Inr LZ4)"
    by code_simp
  from tar_command_lines
    [of ?h "[Invoke ''lz4'' [''--version'']]" LZ4 "''cache.tar''" "[''node_modules'', ''dist'']"
      "''/work''"] n
  show ?thesis by simp
qed




text \<open>
  Claim C2, as stated, fails: for the tag \<open>brotli\<close> the extractor does fail before tar
  is run, but with the language's \<open>TypeError\<close> for spreading a missing flag list;
  nothing in its message says that the compression method is unrecognised.
\<close>

theorem unknown_method_counterexample:
  "extractTar (host ''linux'' None absent absent (tar_exit 0 [])) ''cache.tar'' ''brotli'' ''/work''
     = ([Console_detected ''brotli''], Inl NotIterable)
   \<and> error_name NotIterable = ''TypeError''
   \<and> \<not> str_includes (toLowerCase (error_message NotIterable))
         ''unrecognized compression method''"
proof -
  have a: "extractTar (host ''linux'' None absent absent (tar_exit 0 []))
             ''cache.tar'' ''brotli'' ''/work''
           = ([Console_detected ''brotli''], Inl NotIterable)"
    by code_simp
  have b: "\<not> str_includes (toLowerCase (error_message NotIterable))
             ''unrecognized compression method''"
    by code_simp
  from a b show ?thesis by simp
qed

text \<open>
  Claim C2, amended. For every method tag that is not one of the four values of
  \<open>CompressionMethod\<close> (tags the parameter's type excludes), \<open>buildDecompressionArgs\<close>
  gives no flags at all, never those of some method, and \<open>extractTar\<close> fails after its
  message and before tar is invoked, with the \<open>TypeError\<close> of spreading the missing
  flag list.
\<close>

theorem unknown_method_gets_no_flags:
  assumes "method \<notin> range enum_value"
  shows "buildDecompressionArgs method = None
       \<and> extractTar e archivePath method cwd = ([Console_detected method], Inl NotIterable)"
proof -
  have "method \<noteq> enum_value GZIP" "method \<noteq> enum_value ZSTD_WITHOUT_LONG"
       "method \<noteq> enum_value ZSTD" "method \<noteq> enum_value LZ4"
    using assms by blast+
  then have "buildDecompressionArgs method = None"
    by (simp add: buildDecompressionArgs_def)
  then show ?thesis by (simp add: extractTar_def)
qed

theorem unknown_method_gets_no_flags_witness:
  "''brotli'' \<notin> range enum_value
   \<and> buildDecompressionArgs ''brotli'' = None
   \<and> extractTar (host ''linux'' None absent absent (tar_exit 0 [])) ''cache.tar'' ''brotli'' ''/work''
       = ([Console_detected ''brotli''], Inl NotIterable)"
proof -
  have u: "''brotli'' \<notin> range enum_value"
  proof
    assume "''brotli'' \<in> range enum_value"
    then obtain m where "''brotli'' = enum_value m" by blast
    then show False by (cases m) simp_all
  qed
  from unknown_method_gets_no_flags [OF u] u show ?thesis by simp
qed

end
